theory Spec2Isabelle
  imports Complex_Main "HOL-Library.Word"
begin

unbundle bit_operations_syntax

section \<open>GlfwApp: the data model\<close>

text \<open>
  The development embeds \<^verbatim>\<open>examples/cpp/common/GlfwApp.cpp\<close>. The class keeps a window
  handle, a frame counter and an FPS value; everything else it does is a call into the
  windowing library, the graphics bindings or a hook of the class. Those calls are recorded,
  in the order they happen, in a ghost field \<open>trace\<close> of the state, so that statements
  about "what is called, how often and in which order" are statements about that list.

  \<^item> A \<^verbatim>\<open>GLFWwindow *\<close> is a natural number, \<open>0\<close> being \<^verbatim>\<open>nullptr\<close>.
  \<^item> The C++ \<^verbatim>\<open>int\<close> counters are 32-bit words; \<^verbatim>\<open>++\<close> wraps around, and
    \<open>sint\<close> reads the value back as an \<^verbatim>\<open>int\<close>.
  \<^item> The \<^verbatim>\<open>long\<close> readings of the millisecond clock are integers: the clock counts from
    the start of the process and does not go backwards, so \<^verbatim>\<open>now - start\<close> stays in range.
  \<^item> \<^verbatim>\<open>float\<close> and \<^verbatim>\<open>double\<close> values are idealised as reals. No statement below depends
    on rounding, or on the value of a quotient whose divisor is zero.
  \<^item> An exception is a value: the outcome of a call that can throw is either \<open>Normal s\<close>
    or \<open>Raised e s\<close>, both with the state reached.
\<close>

type_synonym handle = nat

datatype exn =
    RuntimeError string  \<comment> \<open>\<^verbatim>\<open>std::runtime_error\<close> (or a class derived from it) and its message\<close>
  | OtherError string    \<comment> \<open>any other thrown object\<close>

datatype 's outcome = Normal 's | Raised exn 's

datatype call =
    PreCreate
  | CreateRenderingTarget
  | PostCreate
  | GlfwMakeContextCurrent handle
  | GlfwSetWindowUserPointer handle
  | GlfwSetKeyCallback handle
  | GlfwSetMouseButtonCallback handle
  | GlfwSetCursorPosCallback handle
  | GlfwSetCursorEnterCallback handle
  | GlfwSetCharCallback handle
  | GlfwSetScrollCallback handle
  | GlfwSwapInterval int
  | GlewInit
  | GlGetError
  | GlEnableDebugOutputSynchronous
  | GlDebugMessageCallback
  | GlDebugMessageControl
  | GlDebugMessageCallbackARB
  | GlDebugMessageControlARB
  | InitGl
  | ShutdownGl
  | RunShutdownHooks
  | GlfwPollEvents
  | OnKey int int int int
  | OnMouseButton int int int
  | OnMouseEnter int
  | OnMouseMove real real
  | OnCharacter nat
  | OnScroll real real
  | GlfwSetWindowShouldClose handle int
  | Screenshot
  | Update
  | Draw
  | FinishFrame
  | GlfwSwapBuffers handle
  | SAY string
  | SAY_FPS real
  | RenderString string real real real

text \<open>
  The matrices that \<^verbatim>\<open>renderStringAt\<close> handles are never computed with here; they are
  kept symbolic: the identity, the result of \<^verbatim>\<open>glm::ortho\<close> on six arguments, or some
  other matrix known by a number.
\<close>

datatype mat4 = Identity | Ortho real real real real real real | Mat nat

text \<open>
  Modelled from the spec: the class \<^verbatim>\<open>MatrixStack\<close> is declared in a header that is not
  among the sources. The spec speaks of a "scoped push/pop discipline" that "restores the
  previous projection/view state": a stack always has a current matrix, \<^verbatim>\<open>push\<close> saves a
  copy of it, \<^verbatim>\<open>top\<close> and \<^verbatim>\<open>identity\<close> overwrite the current matrix, and \<^verbatim>\<open>pop\<close>
  drops the current matrix and makes the last saved one current. A \<^verbatim>\<open>pop\<close> with nothing
  saved is outside that discipline; the model leaves such a stack alone, and
  \<^verbatim>\<open>renderStringAt\<close> never gets there, since each of its pops follows its own push.
\<close>

datatype MatrixStack = Stack mat4 "mat4 list"

fun push :: "MatrixStack \<Rightarrow> MatrixStack" where
  "push (Stack t saved) = Stack t (t # saved)"

fun set_top :: "mat4 \<Rightarrow> MatrixStack \<Rightarrow> MatrixStack" where
  "set_top m (Stack t saved) = Stack m saved"

definition identity :: "MatrixStack \<Rightarrow> MatrixStack" where
  "identity st = set_top Identity st"

fun pop :: "MatrixStack \<Rightarrow> MatrixStack" where
  "pop (Stack t []) = Stack t []"
| "pop (Stack t (m # saved)) = Stack m saved"

text \<open>
  The state: the members of \<^verbatim>\<open>GlfwApp\<close>, the close flag that the windowing library
  keeps for the window, the two local variables of \<^verbatim>\<open>run\<close>'s loop (\<open>framecount\<close> and
  \<open>start\<close>), the two global matrix stacks of \<^verbatim>\<open>Stacks\<close>, and the trace.
\<close>

record app =
  window :: handle
  windowSize :: "nat \<times> nat"
  windowAspect :: real
  windowAspectInverse :: real
  frame :: "32 word"
  fps :: real
  shouldClose :: bool
  framecount :: "32 word"
  start :: int
  modelview :: MatrixStack
  projection :: MatrixStack
  trace :: "call list"

text \<open>
  The constants of the windowing library's header that \<^verbatim>\<open>onKey\<close> compares with. The header
  is not among the sources, so they are parameters: every statement below holds whatever
  their values are (where it matters that two of them differ, the statement says so).
\<close>

record glfw_h =
  GLFW_PRESS :: int
  GLFW_KEY_ESCAPE :: int
  GLFW_KEY_S :: int
  GLFW_MOD_SHIFT :: int

text \<open>
  What the windowing library hands to the callbacks registered in \<^verbatim>\<open>postCreate\<close> while
  \<^verbatim>\<open>glfwPollEvents\<close> runs: one value per native event, with the arguments of the callback.
  \<open>CloseRequest\<close> is the library's own close signal (the user closes the window): the
  library raises the close flag itself and calls no hook of the class.
\<close>

datatype event =
    KeyEvent int int int int
  | MouseButtonEvent int int int
  | CursorEnterEvent int
  | CursorPosEvent real real
  | CharEvent nat
  | ScrollEvent real real
  | CloseRequest

text \<open>Which of the two debug-output entry points the graphics bindings expose, if any.\<close>

datatype debug_ext = DebugCore | DebugARB | NoDebug

text \<open>
  The collaborators of one call of \<^verbatim>\<open>run\<close>, outside the loop: the header's constants,
  what the subclass's \<^verbatim>\<open>createRenderingTarget\<close> does (it throws, or returns a handle, which
  may be null; the window size and position it is given are not followed), the status \<^verbatim>\<open>glewInit\<close> returns, the debug entry points, and the first
  reading of the clock.
\<close>

record env =
  glfw :: glfw_h
  createRenderingTarget :: "exn + handle"
  glewInit :: int
  debugExt :: debug_ext
  elapsedMillis0 :: int

text \<open>
  The collaborators of one iteration of the loop: the events that this iteration's
  \<^verbatim>\<open>glfwPollEvents\<close> delivers, whether the subclass's \<^verbatim>\<open>draw\<close> throws (\<^verbatim>\<open>draw\<close> has no
  body in this file), and the reading of the clock after \<^verbatim>\<open>finishFrame\<close>.
\<close>

record frame_in =
  events :: "event list"
  draw_result :: "exn option"
  now :: int

section \<open>The operations\<close>

definition record_call :: "call \<Rightarrow> app \<Rightarrow> app" where
  "record_call c s = s\<lparr>trace := trace s @ [c]\<rparr>"

definition andThen :: "'s outcome \<Rightarrow> ('s \<Rightarrow> 's outcome) \<Rightarrow> 's outcome" where
  "andThen r f = (case r of Normal s \<Rightarrow> f s | Raised e s \<Rightarrow> Raised e s)"

text \<open>
  Modelled from the spec: the macros \<^verbatim>\<open>FAIL\<close> and \<^verbatim>\<open>SAY\<close> come from \<^verbatim>\<open>Common.h\<close>, which
  is not among the sources. By the spec a failure is "raised as a single generic
  recoverable-error kind carrying a human-readable message", and the handler "emits it as a
  message".
\<close>

definition FAIL :: "string \<Rightarrow> app \<Rightarrow> app outcome" where
  "FAIL msg s = Raised (RuntimeError msg) s"

definition SAY_msg :: "string \<Rightarrow> app \<Rightarrow> app" where
  "SAY_msg msg s = record_call (SAY msg) s"

text \<open>
  Modelled from the spec: \<^verbatim>\<open>aspect\<close> is declared in \<^verbatim>\<open>Common.h\<close>; the spec calls its
  result the window's aspect ratio, width over height.
\<close>

definition aspect :: "nat \<times> nat \<Rightarrow> real" where
  "aspect sz = real (fst sz) / real (snd sz)"

subsection \<open>Setup and teardown\<close>

text \<open>
  \<^verbatim>\<open>preCreate\<close> and \<^verbatim>\<open>initGl\<close> only pass fixed settings to the windowing library and the
  graphics context; each is recorded as one call.
\<close>

definition preCreate :: "app \<Rightarrow> app" where
  "preCreate s = record_call PreCreate s"

definition register_debug :: "debug_ext \<Rightarrow> app \<Rightarrow> app" where
  "register_debug d s =
     (case d of
        DebugCore \<Rightarrow> record_call GlDebugMessageControl (record_call GlDebugMessageCallback s)
      | DebugARB \<Rightarrow> record_call GlDebugMessageControlARB (record_call GlDebugMessageCallbackARB s)
      | NoDebug \<Rightarrow> s)"

definition postCreate :: "env \<Rightarrow> app \<Rightarrow> app outcome" where
  "postCreate E s0 =
     (let w = window s0;
          s1 = record_call (GlfwMakeContextCurrent w) (record_call PostCreate s0);
          s2 = s1\<lparr>windowAspect := aspect (windowSize s1)\<rparr>;
          s3 = s2\<lparr>windowAspectInverse := 1 / windowAspect s2\<rparr>;
          s4 = record_call (GlfwSetWindowUserPointer w) s3;
          s5 = record_call (GlfwSetKeyCallback w) s4;
          s6 = record_call (GlfwSetMouseButtonCallback w) s5;
          s7 = record_call (GlfwSetCursorPosCallback w) s6;
          s8 = record_call (GlfwSetCursorEnterCallback w) s7;
          s9 = record_call (GlfwSetCharCallback w) s8;
          s10 = record_call (GlfwSetScrollCallback w) s9;
          s11 = record_call (GlfwSwapInterval 1) s10;
          s12 = record_call GlewInit s11
      in if 0 \<noteq> glewInit E then FAIL ''Failed to initialize GLEW'' s12
         else Normal (register_debug (debugExt E)
                (record_call GlEnableDebugOutputSynchronous (record_call GlGetError s12))))"

definition initGl :: "app \<Rightarrow> app" where
  "initGl s = record_call InitGl s"

definition shutdownGl :: "app \<Rightarrow> app" where
  "shutdownGl s = record_call RunShutdownHooks (record_call ShutdownGl s)"

subsection \<open>Hooks and callbacks\<close>

definition update :: "app \<Rightarrow> app" where
  "update s = record_call Update s"

text \<open>\<^verbatim>\<open>draw\<close> is the subclass's: it returns, or throws what the iteration's input says.\<close>

definition draw :: "exn option \<Rightarrow> app \<Rightarrow> app outcome" where
  "draw r s = (case r of None \<Rightarrow> Normal (record_call Draw s)
                       | Some e \<Rightarrow> Raised e (record_call Draw s))"

definition finishFrame :: "app \<Rightarrow> app" where
  "finishFrame s = record_call (GlfwSwapBuffers (window s)) (record_call FinishFrame s)"

text \<open>The body of \<^verbatim>\<open>screenshot\<close> is commented out in the source: the call does nothing.\<close>

definition screenshot :: "app \<Rightarrow> app" where
  "screenshot s = record_call Screenshot s"

definition glfwSetWindowShouldClose :: "int \<Rightarrow> app \<Rightarrow> app" where
  "glfwSetWindowShouldClose v s =
     (record_call (GlfwSetWindowShouldClose (window s) v) s)\<lparr>shouldClose := (v \<noteq> 0)\<rparr>"

definition glfwWindowShouldClose :: "app \<Rightarrow> bool" where
  "glfwWindowShouldClose s = shouldClose s"

definition onKey :: "glfw_h \<Rightarrow> int \<Rightarrow> int \<Rightarrow> int \<Rightarrow> int \<Rightarrow> app \<Rightarrow> app" where
  "onKey g key scancode action mods s =
     (if GLFW_PRESS g \<noteq> action then s
      else if key = GLFW_KEY_ESCAPE g then glfwSetWindowShouldClose 1 s
      else if key = GLFW_KEY_S g then
        (if (mods AND GLFW_MOD_SHIFT g) \<noteq> 0 then screenshot s else s)
      else s)"

definition onCharacter :: "nat \<Rightarrow> app \<Rightarrow> app" where
  "onCharacter code_point s = s"

definition onMouseButton :: "int \<Rightarrow> int \<Rightarrow> int \<Rightarrow> app \<Rightarrow> app" where
  "onMouseButton button action mods s = s"

definition onMouseMove :: "real \<Rightarrow> real \<Rightarrow> app \<Rightarrow> app" where
  "onMouseMove x y s = s"

definition onMouseEnter :: "int \<Rightarrow> app \<Rightarrow> app" where
  "onMouseEnter entered s = s"

definition onScroll :: "real \<Rightarrow> real \<Rightarrow> app \<Rightarrow> app" where
  "onScroll x y s = s"

text \<open>
  The static callbacks look the instance up and call its hook; the entry into the hook
  is recorded with the arguments it receives.
\<close>

definition KeyCallback :: "glfw_h \<Rightarrow> int \<Rightarrow> int \<Rightarrow> int \<Rightarrow> int \<Rightarrow> app \<Rightarrow> app" where
  "KeyCallback g key scancode action mods s =
     onKey g key scancode action mods (record_call (OnKey key scancode action mods) s)"

definition MouseButtonCallback :: "int \<Rightarrow> int \<Rightarrow> int \<Rightarrow> app \<Rightarrow> app" where
  "MouseButtonCallback button action mods s =
     onMouseButton button action mods (record_call (OnMouseButton button action mods) s)"

definition CursorEnterCallback :: "int \<Rightarrow> app \<Rightarrow> app" where
  "CursorEnterCallback enter s = onMouseEnter enter (record_call (OnMouseEnter enter) s)"

definition MouseMoveCallback :: "real \<Rightarrow> real \<Rightarrow> app \<Rightarrow> app" where
  "MouseMoveCallback x y s = onMouseMove x y (record_call (OnMouseMove x y) s)"

definition CharacterCallback :: "nat \<Rightarrow> app \<Rightarrow> app" where
  "CharacterCallback codepoint s = onCharacter codepoint (record_call (OnCharacter codepoint) s)"

definition ScrollCallback :: "real \<Rightarrow> real \<Rightarrow> app \<Rightarrow> app" where
  "ScrollCallback x y s = onScroll x y (record_call (OnScroll x y) s)"

fun dispatch :: "glfw_h \<Rightarrow> event \<Rightarrow> app \<Rightarrow> app" where
  "dispatch g (KeyEvent key scancode action mods) s = KeyCallback g key scancode action mods s"
| "dispatch g (MouseButtonEvent button action mods) s = MouseButtonCallback button action mods s"
| "dispatch g (CursorEnterEvent enter) s = CursorEnterCallback enter s"
| "dispatch g (CursorPosEvent x y) s = MouseMoveCallback x y s"
| "dispatch g (CharEvent codepoint) s = CharacterCallback codepoint s"
| "dispatch g (ScrollEvent x y) s = ScrollCallback x y s"
| "dispatch g CloseRequest s = s\<lparr>shouldClose := True\<rparr>"

fun deliver :: "glfw_h \<Rightarrow> event list \<Rightarrow> app \<Rightarrow> app" where
  "deliver g [] s = s"
| "deliver g (e # es) s = deliver g es (dispatch g e s)"

definition glfwPollEvents :: "glfw_h \<Rightarrow> event list \<Rightarrow> app \<Rightarrow> app" where
  "glfwPollEvents g evs s = deliver g evs (record_call GlfwPollEvents s)"

subsection \<open>The frame loop and \<^verbatim>\<open>run\<close>\<close>

text \<open>One pass through the body of the \<^verbatim>\<open>while\<close> loop.\<close>

definition report_fps :: "int \<Rightarrow> app \<Rightarrow> app" where
  "report_fps t s =
     (if t - start s \<ge> 2000 then
        (let elapsed = real_of_int (t - start s) / 1000;
             s1 = s\<lparr>fps := real_of_int (sint (framecount s)) / elapsed\<rparr>;
             s2 = record_call (SAY_FPS (fps s1)) s1
         in s2\<lparr>start := t, framecount := 0\<rparr>)
      else s)"

definition loop_body :: "glfw_h \<Rightarrow> frame_in \<Rightarrow> app \<Rightarrow> app outcome" where
  "loop_body g fi s0 =
     (let s1 = glfwPollEvents g (events fi) s0;
          s2 = s1\<lparr>frame := frame s1 + 1\<rparr>;
          s3 = update s2
      in andThen (draw (draw_result fi) s3) (\<lambda>s4.
           let s5 = finishFrame s4;
               s6 = s5\<lparr>framecount := framecount s5 + 1\<rparr>
           in Normal (report_fps (now fi) s6)))"

text \<open>
  The \<^verbatim>\<open>while\<close> loop, run on the inputs of its iterations. The result is \<open>None\<close> when
  the inputs are used up while the window is still open, that is, when the loop has not
  ended yet.
\<close>

fun loop :: "glfw_h \<Rightarrow> frame_in list \<Rightarrow> app \<Rightarrow> app outcome option" where
  "loop g [] s = (if glfwWindowShouldClose s then Some (Normal s) else None)"
| "loop g (fi # rest) s =
     (if glfwWindowShouldClose s then Some (Normal s)
      else (case loop_body g fi s of
              Normal s' \<Rightarrow> loop g rest s'
            | Raised e s' \<Rightarrow> Some (Raised e s')))"

text \<open>
  \<^verbatim>\<open>Finally f\<close> runs \<^verbatim>\<open>shutdownGl\<close> when its scope is left, by the end of the loop or by
  an exception passing through.
\<close>

definition Finally_shutdownGl :: "app outcome \<Rightarrow> app outcome" where
  "Finally_shutdownGl r =
     (case r of Normal s \<Rightarrow> Normal (shutdownGl s) | Raised e s \<Rightarrow> Raised e (shutdownGl s))"

definition try_block :: "env \<Rightarrow> frame_in list \<Rightarrow> app \<Rightarrow> app outcome option" where
  "try_block E fis s0 =
     (let s1 = record_call CreateRenderingTarget (preCreate s0)
      in case createRenderingTarget E of
           Inl e \<Rightarrow> Some (Raised e s1)
         | Inr w \<Rightarrow>
             (case postCreate E (s1\<lparr>window := w\<rparr>) of
                Raised e s2 \<Rightarrow> Some (Raised e s2)
              | Normal s2 \<Rightarrow>
                  if window s2 = 0 then Some (FAIL ''Unable to create OpenGL window'' s2)
                  else
                    (let s3 = initGl s2;
                         s4 = s3\<lparr>framecount := 0, start := elapsedMillis0 E\<rparr>
                     in map_option Finally_shutdownGl (loop (glfw E) fis s4))))"

text \<open>
  What a call of \<^verbatim>\<open>run\<close> ends with: it returns a status, or an exception leaves it.
\<close>

datatype run_result = Returned int app | Propagated exn app

fun catch_runtime_error :: "app outcome \<Rightarrow> run_result" where
  "catch_runtime_error (Normal s) = Returned 0 s"
| "catch_runtime_error (Raised (RuntimeError msg) s) = Returned 0 (SAY_msg msg s)"
| "catch_runtime_error (Raised (OtherError x) s) = Propagated (OtherError x) s"

definition run :: "env \<Rightarrow> frame_in list \<Rightarrow> app \<Rightarrow> run_result option" where
  "run E fis s = map_option catch_runtime_error (try_block E fis s)"

definition getFrame :: "app \<Rightarrow> int \<times> app" where
  "getFrame s = (sint (frame s), s)"

subsection \<open>\<^verbatim>\<open>renderStringAt\<close>\<close>

text \<open>
  \<^verbatim>\<open>oria::renderString\<close> is the text-rendering collaborator: it returns or throws, as
  the parameter \<open>rs\<close> says for the arguments it is given, and it leaves the matrix stacks
  as it found them.
\<close>

definition renderString ::
  "(string \<Rightarrow> real \<times> real \<Rightarrow> real \<Rightarrow> exn option) \<Rightarrow> string \<Rightarrow> real \<times> real \<Rightarrow> real \<Rightarrow> app \<Rightarrow> app outcome" where
  "renderString rs str cursor sz s =
     (let s1 = record_call (RenderString str (fst cursor) (snd cursor) sz) s
      in case rs str cursor sz of None \<Rightarrow> Normal s1 | Some e \<Rightarrow> Raised e s1)"

definition renderStringAt ::
  "(string \<Rightarrow> real \<times> real \<Rightarrow> real \<Rightarrow> exn option) \<Rightarrow> string \<Rightarrow> real \<times> real \<Rightarrow> app \<Rightarrow> app outcome" where
  "renderStringAt rs str pos s0 =
     (let s1 = s0\<lparr>modelview := identity (push (modelview s0))\<rparr>;
          s2 = s1\<lparr>projection :=
                 set_top (Ortho (- 1) 1 (- windowAspectInverse s1) (windowAspectInverse s1) (- 100) 100)
                   (push (projection s1))\<rparr>;
          cursor = (fst pos, windowAspectInverse s2 * snd pos)
      in andThen (renderString rs str cursor 18 s2) (\<lambda>s3.
           let s4 = s3\<lparr>projection := pop (projection s3)\<rparr>
           in Normal (s4\<lparr>modelview := pop (modelview s4)\<rparr>)))"

section \<open>Vocabulary of the statements\<close>

text \<open>
  Modelled from the spec: the state of a \<^verbatim>\<open>GlfwApp\<close> before \<^verbatim>\<open>run\<close>. The member
  initialisers are in the class's header, which is not among the sources. By the spec the
  frame counter starts from 0, the window handle exists only after creation, and the close
  flag is raised only by an event.
\<close>

definition new_app :: "nat \<times> nat \<Rightarrow> app" where
  "new_app sz =
     \<lparr>window = 0, windowSize = sz, windowAspect = 1, windowAspectInverse = 1, frame = 0, fps = 0,
      shouldClose = False, framecount = 0, start = 0, modelview = Stack Identity [],
      projection = Stack Identity [], trace = []\<rparr>"

text \<open>
  An event that raises the close flag: a press of the escape key, or the windowing
  library's own close signal.
\<close>

definition closing :: "glfw_h \<Rightarrow> event \<Rightarrow> bool" where
  "closing g e = (case e of
      KeyEvent key scancode action mods \<Rightarrow> action = GLFW_PRESS g \<and> key = GLFW_KEY_ESCAPE g
    | CloseRequest \<Rightarrow> True
    | _ \<Rightarrow> False)"

text \<open>The capture combination: a press of the designated key with the modifier held.\<close>

definition capture_press :: "glfw_h \<Rightarrow> event \<Rightarrow> bool" where
  "capture_press g e = (case e of
      KeyEvent key scancode action mods \<Rightarrow>
        action = GLFW_PRESS g \<and> key = GLFW_KEY_S g \<and> (mods AND GLFW_MOD_SHIFT g) \<noteq> 0
    | _ \<Rightarrow> False)"

text \<open>
  The calls that one native event leads to, as the spec describes the default hooks: one
  call of the hook for the event; for a key event, the close request on an escape press
  and the capture hook on the capture combination; nothing else.
\<close>

fun hook_calls :: "glfw_h \<Rightarrow> handle \<Rightarrow> event \<Rightarrow> call list" where
  "hook_calls g w (KeyEvent key scancode action mods) =
     OnKey key scancode action mods #
       (if action = GLFW_PRESS g \<and> key = GLFW_KEY_ESCAPE g then [GlfwSetWindowShouldClose w 1]
        else if action = GLFW_PRESS g \<and> key = GLFW_KEY_S g \<and> (mods AND GLFW_MOD_SHIFT g) \<noteq> 0
          then [Screenshot]
        else [])"
| "hook_calls g w (MouseButtonEvent button action mods) = [OnMouseButton button action mods]"
| "hook_calls g w (CursorEnterEvent enter) = [OnMouseEnter enter]"
| "hook_calls g w (CursorPosEvent x y) = [OnMouseMove x y]"
| "hook_calls g w (CharEvent codepoint) = [OnCharacter codepoint]"
| "hook_calls g w (ScrollEvent x y) = [OnScroll x y]"
| "hook_calls g w CloseRequest = []"

text \<open>The number of FPS reports in a trace: one for each recomputation of the metric.\<close>

definition fps_reports :: "call list \<Rightarrow> nat" where
  "fps_reports tr = length (filter (\<lambda>c. case c of SAY_FPS v \<Rightarrow> True | _ \<Rightarrow> False) tr)"

text \<open>The number of iterations of the loop that a trace shows as completed.\<close>

definition completed_iterations :: "call list \<Rightarrow> nat" where
  "completed_iterations tr = count_list tr FinishFrame"

fun outcome_state :: "'s outcome \<Rightarrow> 's" where
  "outcome_state (Normal s) = s"
| "outcome_state (Raised e s) = s"

fun run_state :: "run_result \<Rightarrow> app" where
  "run_state (Returned c s) = s"
| "run_state (Propagated e s) = s"


text \<open>The calls of \<^verbatim>\<open>postCreate\<close> up to \<^verbatim>\<open>glewInit\<close>, on the handle \<open>w\<close>.\<close>

definition postCreate_calls :: "handle \<Rightarrow> call list" where
  "postCreate_calls w =
     [PostCreate, GlfwMakeContextCurrent w, GlfwSetWindowUserPointer w, GlfwSetKeyCallback w,
      GlfwSetMouseButtonCallback w, GlfwSetCursorPosCallback w, GlfwSetCursorEnterCallback w,
      GlfwSetCharCallback w, GlfwSetScrollCallback w, GlfwSwapInterval 1, GlewInit]"

definition debug_calls :: "debug_ext \<Rightarrow> call list" where
  "debug_calls d =
     (case d of DebugCore \<Rightarrow> [GlDebugMessageCallback, GlDebugMessageControl]
              | DebugARB \<Rightarrow> [GlDebugMessageCallbackARB, GlDebugMessageControlARB]
              | NoDebug \<Rightarrow> [])"

text \<open>The calls of \<^verbatim>\<open>run\<close> before its loop.\<close>

definition startup_calls :: "env \<Rightarrow> call list" where
  "startup_calls E =
     [PreCreate, CreateRenderingTarget] @
     (case createRenderingTarget E of
        Inl e \<Rightarrow> []
      | Inr w \<Rightarrow>
          postCreate_calls w @
          (if glewInit E \<noteq> 0 then []
           else [GlGetError, GlEnableDebugOutputSynchronous] @ debug_calls (debugExt E) @
                (if w = 0 then [] else [InitGl])))"

text \<open>
  The part of \<^verbatim>\<open>run\<close>'s \<^verbatim>\<open>try\<close> block before the loop, on its own
  (\<open>try_block_startup\<close> below shows that \<open>try_block\<close> is this, followed by the loop).
\<close>

definition startup :: "env \<Rightarrow> app \<Rightarrow> app outcome" where
  "startup E s0 =
     (let s1 = record_call CreateRenderingTarget (preCreate s0)
      in case createRenderingTarget E of
           Inl e \<Rightarrow> Raised e s1
         | Inr w \<Rightarrow>
             (case postCreate E (s1\<lparr>window := w\<rparr>) of
                Raised e s2 \<Rightarrow> Raised e s2
              | Normal s2 \<Rightarrow>
                  if window s2 = 0 then FAIL ''Unable to create OpenGL window'' s2
                  else Normal (initGl s2)))"

subsection \<open>Concrete inputs\<close>

text \<open>The values of the constants in version 3 of the windowing library.\<close>

definition glfw3 :: glfw_h where
  "glfw3 = \<lparr>GLFW_PRESS = 1, GLFW_KEY_ESCAPE = 256, GLFW_KEY_S = 83, GLFW_MOD_SHIFT = 1\<rparr>"

definition null_window_env :: env where
  "null_window_env =
     \<lparr>glfw = glfw3, createRenderingTarget = Inr 0, glewInit = 0, debugExt = NoDebug,
      elapsedMillis0 = 0\<rparr>"

definition working_env :: env where
  "working_env =
     \<lparr>glfw = glfw3, createRenderingTarget = Inr 7, glewInit = 0, debugExt = DebugCore,
      elapsedMillis0 = 100\<rparr>"

definition quiet_frame :: frame_in where
  "quiet_frame = \<lparr>events = [], draw_result = None, now = 0\<rparr>"

definition closing_frame :: frame_in where
  "closing_frame = \<lparr>events = [CloseRequest], draw_result = None, now = 0\<rparr>"

definition capture_frame :: frame_in where
  "capture_frame = \<lparr>events = [KeyEvent 83 31 1 1], draw_result = None, now = 2500\<rparr>"

definition escape_frame :: frame_in where
  "escape_frame = \<lparr>events = [KeyEvent 256 9 1 0], draw_result = None, now = 600\<rparr>"

definition failing_frame :: "exn \<Rightarrow> frame_in" where
  "failing_frame e = \<lparr>events = [], draw_result = Some e, now = 0\<rparr>"

definition failing_renderer :: "string \<Rightarrow> real \<times> real \<Rightarrow> real \<Rightarrow> exn option" where
  "failing_renderer str cursor sz = Some (RuntimeError ''no font'')"

definition working_renderer :: "string \<Rightarrow> real \<times> real \<Rightarrow> real \<Rightarrow> exn option" where
  "working_renderer str cursor sz = None"

definition throwing_env :: "exn \<Rightarrow> env" where
  "throwing_env e =
     \<lparr>glfw = glfw3, createRenderingTarget = Inl e, glewInit = 0, debugExt = NoDebug,
      elapsedMillis0 = 0\<rparr>"

text \<open>Reading a value off the state in which the loop, or \<^verbatim>\<open>run\<close>, ended.\<close>

definition after_loop :: "(app \<Rightarrow> 'a) \<Rightarrow> app outcome option \<Rightarrow> 'a option" where
  "after_loop f r = map_option (f \<circ> outcome_state) r"

definition calls_of :: "call \<Rightarrow> run_result option \<Rightarrow> nat option" where
  "calls_of c r = map_option (\<lambda>x. count_list (trace (run_state x)) c) r"

section \<open>What the operations do to the state\<close>

lemma dispatch_eq:
  "dispatch g e s =
     s\<lparr>shouldClose := shouldClose s \<or> closing g e, trace := trace s @ hook_calls g (window s) e\<rparr>"
  by (cases e)
     (simp_all add: closing_def KeyCallback_def onKey_def glfwSetWindowShouldClose_def
        screenshot_def record_call_def MouseButtonCallback_def onMouseButton_def
        CursorEnterCallback_def onMouseEnter_def MouseMoveCallback_def onMouseMove_def
        CharacterCallback_def onCharacter_def ScrollCallback_def onScroll_def)

lemma deliver_eq:
  "deliver g evs s =
     s\<lparr>shouldClose := shouldClose s \<or> (\<exists>e\<in>set evs. closing g e),
       trace := trace s @ concat (map (hook_calls g (window s)) evs)\<rparr>"
proof (induction evs arbitrary: s)
  case Nil
  show ?case by simp
next
  case (Cons e es)
  show ?case
    by (simp add: Cons.IH dispatch_eq disj_assoc)
qed

lemma glfwPollEvents_eq:
  "glfwPollEvents g evs s =
     s\<lparr>shouldClose := shouldClose s \<or> (\<exists>e\<in>set evs. closing g e),
       trace := trace s @ GlfwPollEvents # concat (map (hook_calls g (window s)) evs)\<rparr>"
  by (simp add: glfwPollEvents_def deliver_eq record_call_def)

lemma loop_body_eq:
  "loop_body g fi s =
     (case draw_result fi of
        None \<Rightarrow>
          Normal (report_fps (now fi)
            (s\<lparr>shouldClose := shouldClose s \<or> (\<exists>e\<in>set (events fi). closing g e),
               frame := frame s + 1,
               trace := trace s @ GlfwPollEvents # concat (map (hook_calls g (window s)) (events fi))
                 @ [Update, Draw, FinishFrame, GlfwSwapBuffers (window s)],
               framecount := framecount s + 1\<rparr>))
      | Some e \<Rightarrow>
          Raised e
            (s\<lparr>shouldClose := shouldClose s \<or> (\<exists>e\<in>set (events fi). closing g e),
               frame := frame s + 1,
               trace := trace s @ GlfwPollEvents # concat (map (hook_calls g (window s)) (events fi))
                 @ [Update, Draw]\<rparr>))"
  by (simp add: loop_body_def glfwPollEvents_eq update_def draw_def finishFrame_def
        record_call_def andThen_def Let_def split: option.split)

lemma report_fps_fields [simp]:
  "window (report_fps t s) = window s"
  "frame (report_fps t s) = frame s"
  "shouldClose (report_fps t s) = shouldClose s"
  "modelview (report_fps t s) = modelview s"
  "projection (report_fps t s) = projection s"
  by (simp_all add: report_fps_def Let_def record_call_def)

lemma hook_calls_Screenshot:
  "GLFW_KEY_ESCAPE g \<noteq> GLFW_KEY_S g \<Longrightarrow>
   count_list (concat (map (hook_calls g w) evs)) Screenshot = length (filter (capture_press g) evs)"
proof (induction evs)
  case Nil
  show ?case by simp
next
  case (Cons e es)
  then show ?case by (cases e) (auto simp: capture_press_def)
qed

lemma hook_calls_quiet:
  "\<forall>e\<in>set evs. \<not> capture_press g e \<Longrightarrow>
   count_list (concat (map (hook_calls g w) evs)) Screenshot = 0"
proof (induction evs)
  case Nil
  show ?case by simp
next
  case (Cons e es)
  then show ?case by (cases e) (auto simp: capture_press_def)
qed

lemma loop_closed: "shouldClose s \<Longrightarrow> loop g fis s = Some (Normal s)"
  by (cases fis) (simp_all add: glfwWindowShouldClose_def)

lemma fps_reports_append: "fps_reports (xs @ ys) = fps_reports xs + fps_reports ys"
  by (simp add: fps_reports_def)

lemma fps_reports_Nil: "fps_reports [] = 0"
  by (simp add: fps_reports_def)

lemma fps_reports_Cons:
  "fps_reports (c # cs) = (case c of SAY_FPS v \<Rightarrow> 1 | _ \<Rightarrow> 0) + fps_reports cs"
  by (cases c) (simp_all add: fps_reports_def)

lemma hook_calls_no_fps: "fps_reports (concat (map (hook_calls g w) evs)) = 0"
proof (induction evs)
  case Nil
  show ?case by (simp add: fps_reports_def)
next
  case (Cons e es)
  then show ?case by (cases e) (simp_all add: fps_reports_def)
qed

lemma hook_calls_no_FinishFrame: "count_list (concat (map (hook_calls g w) evs)) FinishFrame = 0"
proof (induction evs)
  case Nil
  show ?case by simp
next
  case (Cons e es)
  then show ?case by (cases e) simp_all
qed

lemma report_fps_FinishFrame:
  "count_list (trace (report_fps t s)) FinishFrame = count_list (trace s) FinishFrame"
  by (simp add: report_fps_def Let_def record_call_def)

lemma loop_body_frame:
  "loop_body g fi s = Normal s' \<Longrightarrow>
     frame s' = frame s + 1 \<and>
     count_list (trace s') FinishFrame = count_list (trace s) FinishFrame + 1"
  by (auto simp: loop_body_eq report_fps_FinishFrame hook_calls_no_FinishFrame split: option.splits)

lemma loop_frame_count:
  "loop g fis s = Some (Normal s') \<Longrightarrow>
     \<exists>n. count_list (trace s') FinishFrame = count_list (trace s) FinishFrame + n \<and>
         frame s' = frame s + of_nat n"
proof (induction fis arbitrary: s)
  case Nil
  then show ?case by (simp split: if_splits)
next
  case (Cons fi fis)
  show ?case
  proof (cases "glfwWindowShouldClose s")
    case True
    with Cons.prems show ?thesis by simp
  next
    case False
    with Cons.prems obtain s1 where b: "loop_body g fi s = Normal s1" and l: "loop g fis s1 = Some (Normal s')"
      by (auto split: outcome.splits)
    from Cons.IH [OF l] obtain n where
      n: "count_list (trace s') FinishFrame = count_list (trace s1) FinishFrame + n"
         "frame s' = frame s1 + of_nat n" by blast
    from loop_body_frame [OF b] n
    have "count_list (trace s') FinishFrame = count_list (trace s) FinishFrame + Suc n \<and>
          frame s' = frame s + of_nat (Suc n)" by simp
    then show ?thesis by blast
  qed
qed

lemma loop_body_frame_Raised:
  "loop_body g fi s = Raised e s' \<Longrightarrow>
     frame s' = frame s + 1 \<and>
     count_list (trace s') FinishFrame = count_list (trace s) FinishFrame"
  by (auto simp: loop_body_eq hook_calls_no_FinishFrame split: option.splits)

lemma loop_frame_count_Raised:
  "loop g fis s = Some (Raised e s') \<Longrightarrow>
     \<exists>n. count_list (trace s') FinishFrame = count_list (trace s) FinishFrame + n \<and>
         frame s' = frame s + of_nat (Suc n)"
proof (induction fis arbitrary: s)
  case Nil
  then show ?case by (simp split: if_splits)
next
  case (Cons fi fis)
  from Cons.prems have op: "\<not> glfwWindowShouldClose s" by (auto split: if_splits)
  show ?case
  proof (cases "loop_body g fi s")
    case (Raised e1 s1)
    with Cons.prems op have "s1 = s'" by simp
    with loop_body_frame_Raised [OF Raised]
    have "count_list (trace s') FinishFrame = count_list (trace s) FinishFrame + 0 \<and>
          frame s' = frame s + of_nat (Suc 0)" by simp
    then show ?thesis by blast
  next
    case (Normal s1)
    with Cons.prems op have l: "loop g fis s1 = Some (Raised e s')" by simp
    from Cons.IH [OF l] obtain n where
      n: "count_list (trace s') FinishFrame = count_list (trace s1) FinishFrame + n"
         "frame s' = frame s1 + of_nat (Suc n)" by blast
    from loop_body_frame [OF Normal] n
    have "count_list (trace s') FinishFrame = count_list (trace s) FinishFrame + Suc n \<and>
          frame s' = frame s + of_nat (Suc (Suc n))" by simp
    then show ?thesis by blast
  qed
qed

lemma sint_succ:
  "sint (w :: 32 word) < 2 ^ 31 - 1 \<Longrightarrow> sint (w + 1) = sint w + 1"
proof -
  assume "sint w < 2 ^ 31 - 1"
  then have "sint w + 1 < 2 ^ 31" by simp
  moreover have "- (2 ^ 31) \<le> sint w" using sint_ge [of w] by simp
  ultimately show ?thesis by (simp add: sint_word_add signed_take_bit_int_eq_self)
qed



lemma loop_fps_unchanged:
  "\<forall>fi\<in>set fis. now fi - start s < 2000 \<Longrightarrow> loop g fis s = Some r \<Longrightarrow>
     fps (outcome_state r) = fps s \<and> start (outcome_state r) = start s"
proof (induction fis arbitrary: s)
  case Nil
  then show ?case by (auto split: if_splits)
next
  case (Cons fi fis)
  show ?case
  proof (cases "glfwWindowShouldClose s")
    case True
    with Cons.prems show ?thesis by auto
  next
    case False
    show ?thesis
    proof (cases "loop_body g fi s")
      case (Raised e s1)
      with False Cons.prems show ?thesis by (auto simp: loop_body_eq split: option.splits)
    next
      case (Normal s1)
      with Cons.prems have s1: "fps s1 = fps s" "start s1 = start s"
        by (auto simp: loop_body_eq report_fps_def split: option.splits)
      from Normal False Cons.prems have l: "loop g fis s1 = Some r" by simp
      from Cons.prems s1 have "\<forall>fi\<in>set fis. now fi - start s1 < 2000" by simp
      from Cons.IH [OF this l] s1 show ?thesis by simp
    qed
  qed
qed

lemma shouldClose_False_same: "\<not> shouldClose s \<Longrightarrow> s\<lparr>shouldClose := False\<rparr> = s"
  by simp

lemma loop_replicate_quiet:
  "\<not> shouldClose s \<Longrightarrow> start s = 0 \<Longrightarrow>
   loop g (replicate n quiet_frame @ rest) s =
   loop g rest (s\<lparr>frame := frame s + of_nat n,
                  trace := trace s @ concat (replicate n [GlfwPollEvents, Update, Draw, FinishFrame, GlfwSwapBuffers (window s)]),
                  framecount := framecount s + of_nat n\<rparr>)"
proof (induction n arbitrary: s)
  case 0
  then show ?case by simp
next
  case (Suc n)
  then show ?case
    by (simp add: glfwWindowShouldClose_def loop_body_eq quiet_frame_def report_fps_def add.assoc
        shouldClose_False_same)
qed

lemma pop_push [simp]: "pop (set_top m (push st)) = st"
  by (cases st) simp

lemma try_block_startup:
  "try_block E fis s =
     (case startup E s of
        Raised e s' \<Rightarrow> Some (Raised e s')
      | Normal s' \<Rightarrow>
          map_option Finally_shutdownGl
            (loop (glfw E) fis (s'\<lparr>framecount := 0, start := elapsedMillis0 E\<rparr>)))"
  by (simp add: try_block_def startup_def Let_def FAIL_def split: sum.split outcome.split)

lemma register_debug_fields:
  "trace (register_debug d s) = trace s @ debug_calls d"
  "window (register_debug d s) = window s"
  "frame (register_debug d s) = frame s"
  "shouldClose (register_debug d s) = shouldClose s"
  by (cases d; simp add: register_debug_def debug_calls_def record_call_def)+

lemma postCreate_cases:
  "\<exists>s'. postCreate E s =
          (if glewInit E \<noteq> 0 then Raised (RuntimeError ''Failed to initialize GLEW'') s'
           else Normal s')
      \<and> trace s' = trace s @ postCreate_calls (window s) @
           (if glewInit E \<noteq> 0 then []
            else [GlGetError, GlEnableDebugOutputSynchronous] @ debug_calls (debugExt E))
      \<and> window s' = window s \<and> frame s' = frame s \<and> shouldClose s' = shouldClose s"
  by (simp add: postCreate_def Let_def FAIL_def record_call_def postCreate_calls_def
        register_debug_fields)

lemma startup_cases:
  "\<exists>s'. startup E s =
          (case createRenderingTarget E of
             Inl e \<Rightarrow> Raised e s'
           | Inr w \<Rightarrow>
               if glewInit E \<noteq> 0 then Raised (RuntimeError ''Failed to initialize GLEW'') s'
               else if w = 0 then Raised (RuntimeError ''Unable to create OpenGL window'') s'
               else Normal s')
      \<and> trace s' = trace s @ startup_calls E
      \<and> window s' = (case createRenderingTarget E of Inl e \<Rightarrow> window s | Inr w \<Rightarrow> w)
      \<and> frame s' = frame s \<and> shouldClose s' = shouldClose s"
proof (cases "createRenderingTarget E")
  case (Inl e)
  then show ?thesis
    by (simp add: startup_def startup_calls_def Let_def preCreate_def record_call_def)
next
  case (Inr w)
  let ?s1 = "(record_call CreateRenderingTarget (preCreate s))\<lparr>window := w\<rparr>"
  from postCreate_cases [of E ?s1] obtain s2 where
    p: "postCreate E ?s1 =
          (if glewInit E \<noteq> 0 then Raised (RuntimeError ''Failed to initialize GLEW'') s2
           else Normal s2)"
    and t: "trace s2 = trace ?s1 @ postCreate_calls (window ?s1) @
           (if glewInit E \<noteq> 0 then []
            else [GlGetError, GlEnableDebugOutputSynchronous] @ debug_calls (debugExt E))"
    and f: "window s2 = window ?s1" "frame s2 = frame ?s1" "shouldClose s2 = shouldClose ?s1"
    by blast
  show ?thesis
  proof (cases "glewInit E \<noteq> 0 \<or> w = 0")
    case True
    with Inr p t f show ?thesis
      by (intro exI [of _ s2])
         (auto simp: startup_def startup_calls_def Let_def preCreate_def record_call_def FAIL_def)
  next
    case False
    with Inr p t f show ?thesis
      by (intro exI [of _ "initGl s2"])
         (auto simp: startup_def startup_calls_def Let_def preCreate_def record_call_def FAIL_def
            initGl_def)
  qed
qed


lemma run_startup_Normal:
  "startup E s = Normal s' \<Longrightarrow>
   run E fis s =
     map_option (catch_runtime_error \<circ> Finally_shutdownGl)
       (loop (glfw E) fis (s'\<lparr>framecount := 0, start := elapsedMillis0 E\<rparr>))"
  by (simp add: run_def try_block_startup option.map_comp)

lemma count_concat_replicate:
  "count_list (concat (replicate n xs)) x = n * count_list xs x"
  by (induction n) simp_all

lemma quiet_then_close:
  assumes "\<not> shouldClose s" and "start s = 0"
  shows "\<exists>s'. loop g (replicate n quiet_frame @ [closing_frame]) s = Some (Normal s') \<and>
           frame s' = frame s + of_nat (Suc n) \<and>
           completed_iterations (trace s') = completed_iterations (trace s) + Suc n"
  using assms
  by (simp add: loop_replicate_quiet glfwWindowShouldClose_def loop_body_eq closing_frame_def
        closing_def report_fps_def loop_closed completed_iterations_def count_concat_replicate)


lemma startup_null_window:
  assumes "createRenderingTarget E = Inr 0"
  shows "\<exists>s'. startup E s =
            Raised (RuntimeError (if glewInit E \<noteq> 0 then ''Failed to initialize GLEW''
                                  else ''Unable to create OpenGL window'')) s'
          \<and> trace s' = trace s @ startup_calls E \<and> window s' = 0 \<and> frame s' = frame s"
proof -
  from startup_cases [of E s] obtain s' where
    c: "startup E s =
          (case createRenderingTarget E of
             Inl e \<Rightarrow> Raised e s'
           | Inr w \<Rightarrow>
               if glewInit E \<noteq> 0 then Raised (RuntimeError ''Failed to initialize GLEW'') s'
               else if w = 0 then Raised (RuntimeError ''Unable to create OpenGL window'') s'
               else Normal s')"
    and f: "trace s' = trace s @ startup_calls E"
       "window s' = (case createRenderingTarget E of Inl e \<Rightarrow> window s | Inr w \<Rightarrow> w)"
       "frame s' = frame s"
    by blast
  show ?thesis
  proof (cases "glewInit E = 0")
    case True
    with c f assms show ?thesis by (intro exI [of _ s']) simp
  next
    case False
    with c f assms show ?thesis by (intro exI [of _ s']) simp
  qed
qed


lemma try_block_null_window:
  assumes "createRenderingTarget E = Inr 0"
  shows "\<exists>s'. try_block E fis s =
            Some (Raised (RuntimeError (if glewInit E \<noteq> 0 then ''Failed to initialize GLEW''
                                        else ''Unable to create OpenGL window'')) s')
          \<and> trace s' = trace s @ startup_calls E \<and> window s' = 0 \<and> frame s' = frame s"
proof -
  from startup_null_window [OF assms, of s] obtain s' where
    "startup E s = Raised (RuntimeError (if glewInit E \<noteq> 0 then ''Failed to initialize GLEW''
                                        else ''Unable to create OpenGL window'')) s'"
    "trace s' = trace s @ startup_calls E" "window s' = 0" "frame s' = frame s"
    by blast
  then show ?thesis by (simp add: try_block_startup)
qed

section \<open>The claims\<close>

subsection \<open>C5: the capture hook runs once per press of the capture combination\<close>

text \<open>
  Claim C5. The default \<^verbatim>\<open>onKey\<close> invokes the capture hook (\<^verbatim>\<open>screenshot\<close>) exactly once
  for a press event of the designated key with the modifier held, and not at all for any
  other key event: a release, a repeat or any other action, another key, or the designated
  key without the modifier. Hence a poll that delivers a list of events invokes the hook as
  many times as the list has presses of the capture combination. (The two key constants
  are different labels of one \<^verbatim>\<open>switch\<close>.)
\<close>

theorem onKey_screenshot_once_per_capture_press:
  assumes "GLFW_KEY_ESCAPE g \<noteq> GLFW_KEY_S g"
  shows "count_list (trace (onKey g key scancode action mods s)) Screenshot =
           count_list (trace s) Screenshot +
           (if action = GLFW_PRESS g \<and> key = GLFW_KEY_S g \<and> (mods AND GLFW_MOD_SHIFT g) \<noteq> 0
            then 1 else 0)
         \<and> count_list (trace (glfwPollEvents g evs s)) Screenshot =
           count_list (trace s) Screenshot + length (filter (capture_press g) evs)"
proof
  show "count_list (trace (onKey g key scancode action mods s)) Screenshot =
           count_list (trace s) Screenshot +
           (if action = GLFW_PRESS g \<and> key = GLFW_KEY_S g \<and> (mods AND GLFW_MOD_SHIFT g) \<noteq> 0
            then 1 else 0)"
    using assms
    by (simp add: onKey_def glfwSetWindowShouldClose_def screenshot_def record_call_def)
  show "count_list (trace (glfwPollEvents g evs s)) Screenshot =
           count_list (trace s) Screenshot + length (filter (capture_press g) evs)"
    using assms by (simp add: glfwPollEvents_eq hook_calls_Screenshot)
qed

theorem onKey_screenshot_once_per_capture_press_witness:
  "GLFW_KEY_ESCAPE glfw3 \<noteq> GLFW_KEY_S glfw3
   \<and> count_list (trace (onKey glfw3 83 31 1 1 (new_app (800, 600)))) Screenshot = 1
   \<and> count_list (trace (glfwPollEvents glfw3
         [KeyEvent 83 31 1 1, KeyEvent 83 31 2 1, KeyEvent 83 31 0 1, KeyEvent 83 31 1 0,
          KeyEvent 65 30 1 1, KeyEvent 83 31 1 1] (new_app (800, 600)))) Screenshot = 2"
proof -
  have h: "GLFW_KEY_ESCAPE glfw3 \<noteq> GLFW_KEY_S glfw3" by (simp add: glfw3_def)
  show ?thesis
    using h onKey_screenshot_once_per_capture_press [OF h, where key = 83 and scancode = 31
        and action = 1 and mods = 1 and s = "new_app (800, 600)"
        and evs = "[KeyEvent 83 31 1 1, KeyEvent 83 31 2 1, KeyEvent 83 31 0 1,
          KeyEvent 83 31 1 0, KeyEvent 65 30 1 1, KeyEvent 83 31 1 1]"]
    by (simp add: glfw3_def new_app_def capture_press_def)
qed

subsection \<open>C4: the close flag\<close>

text \<open>
  Claim C4. In the default \<^verbatim>\<open>onKey\<close> the close flag is set if and only if the event is a
  press of the escape key, whatever the modifiers: after the call the flag is up exactly
  when it was up before or the event is such a press. A poll whose events contain no
  closing event and no press of the capture combination leaves an unset flag unset and
  does not invoke the capture hook. Once the flag is set the loop runs no further
  iteration: started with the flag up it returns at once with the state untouched, and an
  iteration whose poll delivers a closing event is the last one.
\<close>

theorem onKey_close_flag_iff_escape_press:
  "shouldClose (onKey g key scancode action mods s) =
     (shouldClose s \<or> (action = GLFW_PRESS g \<and> key = GLFW_KEY_ESCAPE g))
   \<and> ((\<forall>e\<in>set evs. \<not> closing g e \<and> \<not> capture_press g e) \<longrightarrow> \<not> shouldClose s \<longrightarrow>
        \<not> shouldClose (glfwPollEvents g evs s)
        \<and> count_list (trace (glfwPollEvents g evs s)) Screenshot = count_list (trace s) Screenshot)
   \<and> (shouldClose s \<longrightarrow> loop g fis s = Some (Normal s))
   \<and> (\<not> shouldClose s \<longrightarrow> (\<exists>e\<in>set (events fi). closing g e) \<longrightarrow>
        loop g (fi # fis) s = Some (loop_body g fi s))"
proof (intro conjI impI)
  show "shouldClose (onKey g key scancode action mods s) =
     (shouldClose s \<or> (action = GLFW_PRESS g \<and> key = GLFW_KEY_ESCAPE g))"
    by (auto simp: onKey_def glfwSetWindowShouldClose_def screenshot_def record_call_def)
next
  assume "\<forall>e\<in>set evs. \<not> closing g e \<and> \<not> capture_press g e" and "\<not> shouldClose s"
  then show "\<not> shouldClose (glfwPollEvents g evs s)"
    by (simp add: glfwPollEvents_eq)
next
  assume "\<forall>e\<in>set evs. \<not> closing g e \<and> \<not> capture_press g e"
  then show "count_list (trace (glfwPollEvents g evs s)) Screenshot = count_list (trace s) Screenshot"
    by (simp add: glfwPollEvents_eq hook_calls_quiet)
next
  assume "shouldClose s"
  then show "loop g fis s = Some (Normal s)" by (rule loop_closed)
next
  assume is_open: "\<not> shouldClose s" and ev: "\<exists>e\<in>set (events fi). closing g e"
  show "loop g (fi # fis) s = Some (loop_body g fi s)"
  proof (cases "draw_result fi")
    case None
    then show ?thesis
      using is_open ev by (simp add: glfwWindowShouldClose_def loop_body_eq loop_closed)
  next
    case (Some e)
    then show ?thesis
      using is_open by (simp add: glfwWindowShouldClose_def loop_body_eq)
  qed
qed

theorem onKey_close_flag_iff_escape_press_witness:
  "shouldClose (onKey glfw3 256 9 1 0 (new_app (800, 600)))
   \<and> \<not> shouldClose (glfwPollEvents glfw3
         [KeyEvent 65 30 1 0, KeyEvent 83 31 1 0, KeyEvent 256 9 0 0, KeyEvent 256 9 2 0]
         (new_app (800, 600)))
   \<and> count_list (trace (glfwPollEvents glfw3
         [KeyEvent 65 30 1 0, KeyEvent 83 31 1 0, KeyEvent 256 9 0 0, KeyEvent 256 9 2 0]
         (new_app (800, 600)))) Screenshot = 0
   \<and> loop glfw3 [quiet_frame, quiet_frame] ((new_app (800, 600))\<lparr>shouldClose := True\<rparr>)
       = Some (Normal ((new_app (800, 600))\<lparr>shouldClose := True\<rparr>))
   \<and> loop glfw3 [escape_frame, quiet_frame] (new_app (800, 600))
       = Some (loop_body glfw3 escape_frame (new_app (800, 600)))"
  using onKey_close_flag_iff_escape_press [where g = glfw3 and key = 256 and scancode = 9
      and action = 1 and mods = 0 and s = "new_app (800, 600)"
      and evs = "[KeyEvent 65 30 1 0, KeyEvent 83 31 1 0, KeyEvent 256 9 0 0, KeyEvent 256 9 2 0]"
      and fi = escape_frame and fis = "[quiet_frame]"]
    onKey_close_flag_iff_escape_press [where g = glfw3 and key = 256 and scancode = 9
      and action = 1 and mods = 0 and s = "(new_app (800, 600))\<lparr>shouldClose := True\<rparr>"
      and evs = "[]" and fi = escape_frame and fis = "[quiet_frame, quiet_frame]"]
  by (simp add: glfw3_def new_app_def capture_press_def closing_def escape_frame_def)

subsection \<open>C3: the order of the calls in one iteration\<close>

text \<open>
  Claim C3. Every iteration of the loop of \<^verbatim>\<open>run\<close> performs, in this order: the poll of
  the pending events, each dispatched to its hook during the poll and so before
  \<^verbatim>\<open>update\<close> and \<^verbatim>\<open>draw\<close>; the \<^verbatim>\<open>update\<close> hook; the \<^verbatim>\<open>draw\<close> hook; the
  \<^verbatim>\<open>finishFrame\<close> hook, which presents the frame; and last the report of a recomputed FPS
  value, only when 2000 ms have passed. An iteration whose \<^verbatim>\<open>draw\<close> throws has made the
  calls up to \<^verbatim>\<open>draw\<close>, in the same order, and none after it.
\<close>

theorem loop_body_call_order:
  "(draw_result fi = None \<longrightarrow>
      (\<exists>s'. loop_body g fi s = Normal s' \<and>
         trace s' = trace s @ [GlfwPollEvents] @ concat (map (hook_calls g (window s)) (events fi))
           @ [Update, Draw, FinishFrame, GlfwSwapBuffers (window s)]
           @ (if now fi - start s \<ge> 2000 then [SAY_FPS (fps s')] else [])))
   \<and> (\<forall>e. draw_result fi = Some e \<longrightarrow>
      (\<exists>s'. loop_body g fi s = Raised e s' \<and>
         trace s' = trace s @ [GlfwPollEvents] @ concat (map (hook_calls g (window s)) (events fi))
           @ [Update, Draw]))"
  by (simp add: loop_body_eq report_fps_def Let_def record_call_def)

theorem loop_body_call_order_witness:
  "\<exists>s'. loop_body glfw3 capture_frame (new_app (800, 600)) = Normal s' \<and>
      trace s' = [GlfwPollEvents, OnKey 83 31 1 1, Screenshot, Update, Draw, FinishFrame,
                  GlfwSwapBuffers 0, SAY_FPS (fps s')]"
  using loop_body_call_order [where g = glfw3 and fi = capture_frame and s = "new_app (800, 600)"]
  by (simp add: glfw3_def new_app_def capture_frame_def)

subsection \<open>C7: the FPS metric\<close>

text \<open>
  Claim C7. An iteration recomputes the FPS metric if and only if, at its end, at least
  2000 ms have passed since the measurement started. If so, the metric becomes the number
  of frames tallied (this one included) over the seconds passed, it is reported once, the
  measurement restarts at the current time and the tally at 0. If not, the stored value
  and the start time are unchanged, nothing is reported and the tally is one higher. So
  however many iterations the loop runs without reaching the threshold, the stored value
  at its end is the one it started with.
\<close>

theorem fps_recomputed_iff_window_elapsed:
  "(draw_result fi = None \<longrightarrow>
     (\<exists>s'. loop_body g fi s = Normal s' \<and>
       (if now fi - start s \<ge> 2000
        then fps s' = real_of_int (sint (framecount s + 1)) / (real_of_int (now fi - start s) / 1000)
             \<and> start s' = now fi \<and> framecount s' = 0
             \<and> fps_reports (trace s') = fps_reports (trace s) + 1
        else fps s' = fps s \<and> start s' = start s \<and> framecount s' = framecount s + 1
             \<and> fps_reports (trace s') = fps_reports (trace s))))
   \<and> (\<forall>r. (\<forall>fi\<in>set fis. now fi - start s < 2000) \<and> loop g fis s = Some r \<longrightarrow>
         fps (outcome_state r) = fps s \<and> start (outcome_state r) = start s)"
proof (intro conjI allI impI)
  assume "draw_result fi = None"
  then show "\<exists>s'. loop_body g fi s = Normal s' \<and>
       (if now fi - start s \<ge> 2000
        then fps s' = real_of_int (sint (framecount s + 1)) / (real_of_int (now fi - start s) / 1000)
             \<and> start s' = now fi \<and> framecount s' = 0
             \<and> fps_reports (trace s') = fps_reports (trace s) + 1
        else fps s' = fps s \<and> start s' = start s \<and> framecount s' = framecount s + 1
             \<and> fps_reports (trace s') = fps_reports (trace s))"
    by (simp add: loop_body_eq report_fps_def Let_def record_call_def fps_reports_append
          fps_reports_Cons fps_reports_Nil hook_calls_no_fps)
next
  fix r assume "(\<forall>fi\<in>set fis. now fi - start s < 2000) \<and> loop g fis s = Some r"
  then have a: "\<forall>fi\<in>set fis. now fi - start s < 2000" and l: "loop g fis s = Some r"
    by simp_all
  from loop_fps_unchanged [OF a l]
  show "fps (outcome_state r) = fps s" and "start (outcome_state r) = start s" by simp_all
qed

theorem fps_recomputed_iff_window_elapsed_witness:
  "(\<exists>s'. loop_body glfw3 capture_frame (new_app (800, 600)) = Normal s' \<and>
      fps s' = 2 / 5 \<and> start s' = 2500 \<and> framecount s' = 0 \<and> fps_reports (trace s') = 1)
   \<and> (\<exists>s'. loop_body glfw3 escape_frame (new_app (800, 600)) = Normal s' \<and>
      fps s' = 0 \<and> start s' = 0 \<and> framecount s' = 1 \<and> fps_reports (trace s') = 0)
   \<and> after_loop fps
       (loop glfw3 (replicate 999 quiet_frame @ [closing_frame]) (new_app (800, 600))) = Some 0"
proof -
  let ?s = "new_app (800, 600)"
  let ?fis = "replicate 999 quiet_frame @ [closing_frame]"
  have a: "draw_result capture_frame = None" by (simp add: capture_frame_def)
  have b: "draw_result escape_frame = None" by (simp add: escape_frame_def)
  have s: "\<not> shouldClose ?s" "start ?s = 0" "fps ?s = 0" by (simp_all add: new_app_def)
  from quiet_then_close [OF s(1,2), of glfw3 999] obtain s2 where
    l: "loop glfw3 ?fis ?s = Some (Normal s2)" by blast
  have q: "\<forall>fi\<in>set ?fis. now fi - start ?s < 2000"
    by (auto simp: s quiet_frame_def closing_frame_def)
  from fps_recomputed_iff_window_elapsed [where s = ?s and g = glfw3 and fis = ?fis] q l s
  have "fps (outcome_state (Normal s2)) = 0" by simp
  with l have 3: "after_loop fps (loop glfw3 ?fis ?s) = Some 0" by (simp add: after_loop_def)
  from fps_recomputed_iff_window_elapsed [where fi = capture_frame and s = ?s and g = glfw3] a
  have 1: "\<exists>s'. loop_body glfw3 capture_frame ?s = Normal s' \<and>
      fps s' = 2 / 5 \<and> start s' = 2500 \<and> framecount s' = 0 \<and> fps_reports (trace s') = 1"
    by (simp add: new_app_def capture_frame_def fps_reports_Nil)
  from fps_recomputed_iff_window_elapsed [where fi = escape_frame and s = ?s and g = glfw3] b
  have 2: "\<exists>s'. loop_body glfw3 escape_frame ?s = Normal s' \<and>
      fps s' = 0 \<and> start s' = 0 \<and> framecount s' = 1 \<and> fps_reports (trace s') = 0"
    by (simp add: new_app_def escape_frame_def fps_reports_Nil)
  from 1 2 3 show ?thesis by blast
qed

subsection \<open>C2: \<^verbatim>\<open>renderStringAt\<close> and the matrix stacks\<close>

text \<open>
  Claim C2, as the code has it. When the text-rendering collaborator returns,
  \<^verbatim>\<open>renderStringAt\<close> returns with the projection and modelview stacks as they were before
  the call. When the collaborator throws, the exception leaves \<^verbatim>\<open>renderStringAt\<close> before
  its two pops: each stack keeps the matrix that was pushed.
\<close>

theorem renderStringAt_restores_on_return:
  "(rs str (fst pos, windowAspectInverse s * snd pos) 18 = None \<longrightarrow>
      (\<exists>s'. renderStringAt rs str pos s = Normal s' \<and>
            modelview s' = modelview s \<and> projection s' = projection s))
   \<and> (\<forall>e. rs str (fst pos, windowAspectInverse s * snd pos) 18 = Some e \<longrightarrow>
      (\<exists>s'. renderStringAt rs str pos s = Raised e s' \<and>
            modelview s' = identity (push (modelview s)) \<and>
            projection s' = set_top (Ortho (- 1) 1 (- windowAspectInverse s) (windowAspectInverse s) (- 100) 100)
                              (push (projection s))))"
  by (simp add: renderStringAt_def renderString_def andThen_def Let_def record_call_def identity_def)

theorem renderStringAt_restores_on_return_witness:
  "(\<exists>s'. renderStringAt working_renderer ''fps'' (1 / 2, 1 / 2) (new_app (800, 600)) = Normal s' \<and>
      modelview s' = Stack Identity [] \<and> projection s' = Stack Identity [])
   \<and> (\<exists>s'. renderStringAt failing_renderer ''fps'' (1 / 2, 1 / 2) (new_app (800, 600))
           = Raised (RuntimeError ''no font'') s' \<and>
      modelview s' = Stack Identity [Identity] \<and>
      projection s' = Stack (Ortho (- 1) 1 (- 1) 1 (- 100) 100) [Identity])"
  using renderStringAt_restores_on_return [where rs = working_renderer and str = "''fps''"
      and pos = "(1 / 2, 1 / 2)" and s = "new_app (800, 600)"]
    renderStringAt_restores_on_return [where rs = failing_renderer and str = "''fps''"
      and pos = "(1 / 2, 1 / 2)" and s = "new_app (800, 600)"]
  by (simp add: working_renderer_def failing_renderer_def new_app_def identity_def)

text \<open>
  The claim as the spec states it, that the stacks are restored also when the collaborator
  fails, does not hold: after a failing call on a fresh application the modelview stack is
  one matrix deeper than before.
\<close>

theorem renderStringAt_restore_counterexample:
  "renderStringAt failing_renderer ''fps'' (1 / 2, 1 / 2) (new_app (800, 600))
     = Raised (RuntimeError ''no font'')
         (outcome_state (renderStringAt failing_renderer ''fps'' (1 / 2, 1 / 2) (new_app (800, 600))))
   \<and> modelview (outcome_state
        (renderStringAt failing_renderer ''fps'' (1 / 2, 1 / 2) (new_app (800, 600))))
     \<noteq> modelview (new_app (800, 600))
   \<and> projection (outcome_state
        (renderStringAt failing_renderer ''fps'' (1 / 2, 1 / 2) (new_app (800, 600))))
     \<noteq> projection (new_app (800, 600))"
  by (simp add: renderStringAt_def renderString_def andThen_def Let_def record_call_def
        identity_def failing_renderer_def new_app_def)

subsection \<open>C6: the frame counter\<close>

text \<open>
  Claim C6. The frame counter starts at 0 and every iteration of the loop increments it
  exactly once, also an iteration that an exception from \<^verbatim>\<open>draw\<close> cuts short.
  \<^verbatim>\<open>getFrame\<close> changes nothing and returns the counter as an \<^verbatim>\<open>int\<close>. The spec assumes
  that the counter fits the platform's integer range; within that range the counter grows
  by one per iteration, and after \<open>N\<close> completed iterations, counted from a fresh
  application, \<^verbatim>\<open>getFrame\<close> returns \<open>N\<close>, in particular for \<open>N\<close> in 0, 1 and 1000.
  When the loop is left by an exception, the counter has also counted the iteration that
  was cut short: it is one more than the number of completed iterations.
\<close>

theorem frame_counter_counts_iterations:
  "frame (new_app sz) = 0
   \<and> (\<forall>s'. loop_body g fi s = Normal s' \<longrightarrow>
         frame s' = frame s + 1 \<and>
         completed_iterations (trace s') = completed_iterations (trace s) + 1 \<and>
         (fst (getFrame s) < 2 ^ 31 - 1 \<longrightarrow> fst (getFrame s') = fst (getFrame s) + 1))
   \<and> (\<forall>s'. frame s = 0 \<and> completed_iterations (trace s) = 0 \<and>
         loop g fis s = Some (Normal s') \<and> completed_iterations (trace s') < 2 ^ 31 \<longrightarrow>
         fst (getFrame s') = int (completed_iterations (trace s')))
   \<and> snd (getFrame s) = s
   \<and> (\<forall>e s'. loop_body g fi s = Raised e s' \<longrightarrow>
         frame s' = frame s + 1 \<and>
         completed_iterations (trace s') = completed_iterations (trace s) \<and>
         (fst (getFrame s) < 2 ^ 31 - 1 \<longrightarrow> fst (getFrame s') = fst (getFrame s) + 1))
   \<and> (\<forall>e s'. frame s = 0 \<and> completed_iterations (trace s) = 0 \<and>
         loop g fis s = Some (Raised e s') \<and> completed_iterations (trace s') + 1 < 2 ^ 31 \<longrightarrow>
         fst (getFrame s') = int (completed_iterations (trace s')) + 1)"
proof (intro conjI allI impI)
  show "frame (new_app sz) = 0" by (simp add: new_app_def)
next
  fix s' assume "loop_body g fi s = Normal s'"
  from loop_body_frame [OF this]
  show "frame s' = frame s + 1"
    and "completed_iterations (trace s') = completed_iterations (trace s) + 1"
    by (simp_all add: completed_iterations_def)
next
  fix s' assume b: "loop_body g fi s = Normal s'" and r: "fst (getFrame s) < 2 ^ 31 - 1"
  from loop_body_frame [OF b] have f: "frame s' = frame s + 1" by simp
  from r have "sint (frame s) < 2 ^ 31 - 1" by (simp add: getFrame_def)
  from sint_succ [OF this] f show "fst (getFrame s') = fst (getFrame s) + 1"
    by (simp add: getFrame_def)
next
  fix s'
  assume a: "frame s = 0 \<and> completed_iterations (trace s) = 0 \<and>
         loop g fis s = Some (Normal s') \<and> completed_iterations (trace s') < 2 ^ 31"
  then have l: "loop g fis s = Some (Normal s')" by simp
  from loop_frame_count [OF l] a obtain n where
    n: "completed_iterations (trace s') = n" "frame s' = of_nat n"
    by (auto simp: completed_iterations_def)
  with a have "n < 2 ^ 31" by simp
  then have "sint (of_nat n :: 32 word) = int n"
    by (simp add: signed_of_nat signed_take_bit_int_eq_self)
  with n show "fst (getFrame s') = int (completed_iterations (trace s'))"
    by (simp add: getFrame_def)
next
  show "snd (getFrame s) = s" by (simp add: getFrame_def)
next
  fix e s' assume "loop_body g fi s = Raised e s'"
  from loop_body_frame_Raised [OF this]
  show "frame s' = frame s + 1"
    and "completed_iterations (trace s') = completed_iterations (trace s)"
    by (simp_all add: completed_iterations_def)
next
  fix e s' assume b: "loop_body g fi s = Raised e s'" and r: "fst (getFrame s) < 2 ^ 31 - 1"
  from loop_body_frame_Raised [OF b] have f: "frame s' = frame s + 1" by simp
  from r have "sint (frame s) < 2 ^ 31 - 1" by (simp add: getFrame_def)
  from sint_succ [OF this] f show "fst (getFrame s') = fst (getFrame s) + 1"
    by (simp add: getFrame_def)
next
  fix e s'
  assume a: "frame s = 0 \<and> completed_iterations (trace s) = 0 \<and>
         loop g fis s = Some (Raised e s') \<and> completed_iterations (trace s') + 1 < 2 ^ 31"
  then have l: "loop g fis s = Some (Raised e s')" by simp
  from loop_frame_count_Raised [OF l] a obtain n where
    n: "completed_iterations (trace s') = n" "frame s' = of_nat (Suc n)"
    by (auto simp: completed_iterations_def)
  with a have "Suc n < 2 ^ 31" by simp
  then have "sint (of_nat (Suc n) :: 32 word) = int (Suc n)"
    by (simp only: signed_of_nat) (simp add: signed_take_bit_int_eq_self)
  with n show "fst (getFrame s') = int (completed_iterations (trace s')) + 1"
    by (simp add: getFrame_def)
qed

theorem frame_counter_counts_iterations_witness:
  "frame (new_app (800, 600)) = 0
   \<and> after_loop (fst \<circ> getFrame)
       (loop glfw3 [] ((new_app (800, 600))\<lparr>shouldClose := True\<rparr>)) = Some 0
   \<and> after_loop (fst \<circ> getFrame) (loop glfw3 [closing_frame] (new_app (800, 600))) = Some 1
   \<and> after_loop (completed_iterations \<circ> trace)
       (loop glfw3 (replicate 999 quiet_frame @ [closing_frame]) (new_app (800, 600))) = Some 1000
   \<and> after_loop (fst \<circ> getFrame)
       (loop glfw3 (replicate 999 quiet_frame @ [closing_frame]) (new_app (800, 600))) = Some 1000
   \<and> after_loop (completed_iterations \<circ> trace)
       (loop glfw3 [quiet_frame, failing_frame (RuntimeError ''draw failed'')] (new_app (800, 600)))
       = Some 1
   \<and> after_loop (fst \<circ> getFrame)
       (loop glfw3 [quiet_frame, failing_frame (RuntimeError ''draw failed'')] (new_app (800, 600)))
       = Some 2"
proof -
  let ?s = "new_app (800, 600)"
  let ?e = "RuntimeError ''draw failed''"
  have s: "\<not> shouldClose ?s" "start ?s = 0" "frame ?s = 0" "completed_iterations (trace ?s) = 0"
    by (simp_all add: new_app_def completed_iterations_def)
  have c: "loop glfw3 [] (?s\<lparr>shouldClose := True\<rparr>) = Some (Normal (?s\<lparr>shouldClose := True\<rparr>))"
    by (simp add: glfwWindowShouldClose_def)
  from quiet_then_close [OF s(1,2), of glfw3 0] s obtain s1 where
    s1: "loop glfw3 [closing_frame] ?s = Some (Normal s1)" "completed_iterations (trace s1) = 1"
    by auto
  from quiet_then_close [OF s(1,2), of glfw3 999] s obtain s2 where
    s2: "loop glfw3 (replicate 999 quiet_frame @ [closing_frame]) ?s = Some (Normal s2)"
        "completed_iterations (trace s2) = 1000"
    by auto
  have "\<exists>s3. loop glfw3 [quiet_frame, failing_frame ?e] ?s = Some (Raised ?e s3) \<and>
          completed_iterations (trace s3) = 1"
    by (simp add: glfwWindowShouldClose_def loop_body_eq quiet_frame_def failing_frame_def
          report_fps_def new_app_def completed_iterations_def)
  then obtain s3 where
    s3: "loop glfw3 [quiet_frame, failing_frame ?e] ?s = Some (Raised ?e s3)"
        "completed_iterations (trace s3) = 1"
    by blast
  have "fst (getFrame (?s\<lparr>shouldClose := True\<rparr>)) = 0"
    using frame_counter_counts_iterations [where s = "?s\<lparr>shouldClose := True\<rparr>" and g = glfw3
        and fis = "[]"] c s
    by (simp add: completed_iterations_def new_app_def)
  moreover have "fst (getFrame s1) = 1"
    using frame_counter_counts_iterations [where s = ?s and g = glfw3 and fis = "[closing_frame]"]
      s s1 by simp
  moreover have "fst (getFrame s2) = 1000"
    using frame_counter_counts_iterations [where s = ?s and g = glfw3
        and fis = "replicate 999 quiet_frame @ [closing_frame]"] s s2 by simp
  moreover have "fst (getFrame s3) = 2"
    using frame_counter_counts_iterations [where s = ?s and g = glfw3
        and fis = "[quiet_frame, failing_frame ?e]"] s s3 by simp
  ultimately show ?thesis
    using s c s1 s2 s3 by (simp add: after_loop_def)
qed

subsection \<open>C8: the status that \<^verbatim>\<open>run\<close> returns\<close>



subsection \<open>C10: what the handler of \<^verbatim>\<open>run\<close> does not catch\<close>

text \<open>
  Claim C10. The handler of \<^verbatim>\<open>run\<close> catches runtime errors only. An error of another
  kind that is raised in the \<^verbatim>\<open>try\<close> block leaves \<^verbatim>\<open>run\<close> as it is, with no message
  emitted and no status returned, and only such errors leave \<^verbatim>\<open>run\<close>. This is so for
  an error thrown during the setup, by \<^verbatim>\<open>createRenderingTarget\<close>, and for one thrown in
  the loop body, by \<^verbatim>\<open>draw\<close>; the latter passes the guard, which shuts the graphics down.
\<close>

theorem run_catches_only_runtime_error:
  "(\<forall>x s'. try_block E fis s = Some (Raised (OtherError x) s') \<longrightarrow>
       run E fis s = Some (Propagated (OtherError x) s'))
   \<and> (\<forall>e s'. run E fis s = Some (Propagated e s') \<longrightarrow>
       (\<exists>x. e = OtherError x) \<and> try_block E fis s = Some (Raised e s'))
   \<and> (createRenderingTarget E = Inl (OtherError x) \<longrightarrow>
       run E fis s = Some (Propagated (OtherError x) (record_call CreateRenderingTarget (preCreate s))))
   \<and> (\<forall>w. createRenderingTarget E = Inr w \<and> w \<noteq> 0 \<and> glewInit E = 0 \<and> \<not> shouldClose s \<and>
          draw_result fi = Some (OtherError x) \<longrightarrow>
       (\<exists>s'. run E (fi # fis) s = Some (Propagated (OtherError x) s') \<and>
          trace s' = trace s @ startup_calls E @ [GlfwPollEvents]
            @ concat (map (hook_calls (glfw E) w) (events fi))
            @ [Update, Draw, ShutdownGl, RunShutdownHooks]))"
proof (intro conjI allI impI)
  fix x s' assume "try_block E fis s = Some (Raised (OtherError x) s')"
  then show "run E fis s = Some (Propagated (OtherError x) s')" by (simp add: run_def)
next
  fix e s' assume r: "run E fis s = Some (Propagated e s')"
  then obtain o' where t: "try_block E fis s = Some o'" and c: "catch_runtime_error o' = Propagated e s'"
    by (auto simp: run_def)
  from c have "(\<exists>x. e = OtherError x) \<and> o' = Raised e s'"
    by (cases o' rule: catch_runtime_error.cases) auto
  with t show "\<exists>x. e = OtherError x" and "try_block E fis s = Some (Raised e s')" by auto
next
  assume "createRenderingTarget E = Inl (OtherError x)"
  then show "run E fis s = Some (Propagated (OtherError x) (record_call CreateRenderingTarget (preCreate s)))"
    by (simp add: run_def try_block_def)
next
  fix w
  assume a: "createRenderingTarget E = Inr w \<and> w \<noteq> 0 \<and> glewInit E = 0 \<and> \<not> shouldClose s \<and>
          draw_result fi = Some (OtherError x)"
  from startup_cases [of E s] a obtain s1 where
    s1: "startup E s = Normal s1" "trace s1 = trace s @ startup_calls E" "window s1 = w"
        "shouldClose s1 = shouldClose s"
    by auto
  from a s1 run_startup_Normal [OF s1(1), of "fi # fis"]
  show "\<exists>s'. run E (fi # fis) s = Some (Propagated (OtherError x) s') \<and>
          trace s' = trace s @ startup_calls E @ [GlfwPollEvents]
            @ concat (map (hook_calls (glfw E) w) (events fi))
            @ [Update, Draw, ShutdownGl, RunShutdownHooks]"
    by (simp add: glfwWindowShouldClose_def loop_body_eq Finally_shutdownGl_def shutdownGl_def
          record_call_def)
qed

theorem run_catches_only_runtime_error_witness:
  "run (throwing_env (OtherError ''bad_alloc'')) [quiet_frame] (new_app (800, 600))
     = Some (Propagated (OtherError ''bad_alloc'')
         (record_call CreateRenderingTarget (preCreate (new_app (800, 600)))))
   \<and> (\<exists>s'. run working_env [failing_frame (OtherError ''logic_error''), quiet_frame]
              (new_app (800, 600)) = Some (Propagated (OtherError ''logic_error'') s') \<and>
          trace s' = [PreCreate, CreateRenderingTarget, PostCreate,
               GlfwMakeContextCurrent 7, GlfwSetWindowUserPointer 7, GlfwSetKeyCallback 7,
               GlfwSetMouseButtonCallback 7, GlfwSetCursorPosCallback 7,
               GlfwSetCursorEnterCallback 7, GlfwSetCharCallback 7, GlfwSetScrollCallback 7,
               GlfwSwapInterval 1, GlewInit, GlGetError, GlEnableDebugOutputSynchronous,
               GlDebugMessageCallback, GlDebugMessageControl, InitGl,
               GlfwPollEvents, Update, Draw, ShutdownGl, RunShutdownHooks])"
proof -
  have a: "createRenderingTarget (throwing_env (OtherError ''bad_alloc'')) = Inl (OtherError ''bad_alloc'')"
    by (simp add: throwing_env_def)
  have b: "createRenderingTarget working_env = Inr 7 \<and> (7::nat) \<noteq> 0 \<and> glewInit working_env = 0 \<and>
      \<not> shouldClose (new_app (800, 600)) \<and>
      draw_result (failing_frame (OtherError ''logic_error'')) = Some (OtherError ''logic_error'')"
    by (simp add: working_env_def new_app_def failing_frame_def)
  have c: "startup_calls working_env = [PreCreate, CreateRenderingTarget, PostCreate,
               GlfwMakeContextCurrent 7, GlfwSetWindowUserPointer 7, GlfwSetKeyCallback 7,
               GlfwSetMouseButtonCallback 7, GlfwSetCursorPosCallback 7,
               GlfwSetCursorEnterCallback 7, GlfwSetCharCallback 7, GlfwSetScrollCallback 7,
               GlfwSwapInterval 1, GlewInit, GlGetError, GlEnableDebugOutputSynchronous,
               GlDebugMessageCallback, GlDebugMessageControl, InitGl]"
      "events (failing_frame (OtherError ''logic_error'')) = []" "trace (new_app (800, 600)) = []"
    by (simp_all add: startup_calls_def postCreate_calls_def debug_calls_def working_env_def
          failing_frame_def new_app_def)
  from run_catches_only_runtime_error [where E = "throwing_env (OtherError ''bad_alloc'')"
      and x = "''bad_alloc''" and fis = "[quiet_frame]" and s = "new_app (800, 600)"] a
  have 1: "run (throwing_env (OtherError ''bad_alloc'')) [quiet_frame] (new_app (800, 600))
     = Some (Propagated (OtherError ''bad_alloc'')
         (record_call CreateRenderingTarget (preCreate (new_app (800, 600)))))" by blast
  from run_catches_only_runtime_error [where E = working_env and x = "''logic_error''"
      and fi = "failing_frame (OtherError ''logic_error'')" and fis = "[quiet_frame]"
      and s = "new_app (800, 600)"] b
  have "\<exists>s'. run working_env [failing_frame (OtherError ''logic_error''), quiet_frame]
              (new_app (800, 600)) = Some (Propagated (OtherError ''logic_error'') s') \<and>
          trace s' = trace (new_app (800, 600)) @ startup_calls working_env @ [GlfwPollEvents]
            @ concat (map (hook_calls (glfw working_env) 7)
                (events (failing_frame (OtherError ''logic_error''))))
            @ [Update, Draw, ShutdownGl, RunShutdownHooks]" by blast
  with 1 c show ?thesis by simp
qed

subsection \<open>C9: \<^verbatim>\<open>postCreate\<close> runs before the window is checked\<close>

text \<open>
  Claim C9. \<^verbatim>\<open>run\<close> calls \<^verbatim>\<open>postCreate\<close> before it checks the handle. When
  \<^verbatim>\<open>createRenderingTarget\<close> returns a null handle, \<^verbatim>\<open>postCreate\<close> still runs on it: it
  makes the context current on the null handle and registers the user pointer and every
  input callback on it, and only after that is a failure raised (the one for the missing
  window, unless the graphics bindings have failed to initialise inside \<^verbatim>\<open>postCreate\<close>).
\<close>

theorem run_postCreate_before_window_check:
  assumes "createRenderingTarget E = Inr 0"
  shows "\<exists>s' msg rest. try_block E fis s = Some (Raised (RuntimeError msg) s')
          \<and> run E fis s = Some (Returned 0 (record_call (SAY msg) s'))
          \<and> window s' = 0
          \<and> trace s' = trace s @ [PreCreate, CreateRenderingTarget, PostCreate,
               GlfwMakeContextCurrent 0, GlfwSetWindowUserPointer 0, GlfwSetKeyCallback 0,
               GlfwSetMouseButtonCallback 0, GlfwSetCursorPosCallback 0,
               GlfwSetCursorEnterCallback 0, GlfwSetCharCallback 0, GlfwSetScrollCallback 0,
               GlfwSwapInterval 1, GlewInit] @ rest
          \<and> (if glewInit E = 0
              then msg = ''Unable to create OpenGL window'' \<and>
                   rest = [GlGetError, GlEnableDebugOutputSynchronous] @ debug_calls (debugExt E)
              else msg = ''Failed to initialize GLEW'' \<and> rest = [])"
proof -
  from try_block_null_window [OF assms, of fis s] obtain s1 where
    t: "try_block E fis s =
            Some (Raised (RuntimeError (if glewInit E \<noteq> 0 then ''Failed to initialize GLEW''
                                        else ''Unable to create OpenGL window'')) s1)"
    and s1: "trace s1 = trace s @ startup_calls E" "window s1 = 0"
    by blast
  from t have "run E fis s = Some (Returned 0 (record_call
      (SAY (if glewInit E \<noteq> 0 then ''Failed to initialize GLEW''
            else ''Unable to create OpenGL window'')) s1))"
    by (simp add: run_def SAY_msg_def)
  with t s1 assms show ?thesis
    by (intro exI [of _ s1]) (simp add: startup_calls_def postCreate_calls_def)
qed

theorem run_postCreate_before_window_check_witness:
  "createRenderingTarget null_window_env = Inr 0
   \<and> (\<exists>s'. try_block null_window_env [quiet_frame] (new_app (800, 600))
              = Some (Raised (RuntimeError ''Unable to create OpenGL window'') s')
          \<and> run null_window_env [quiet_frame] (new_app (800, 600))
              = Some (Returned 0 (record_call (SAY ''Unable to create OpenGL window'') s'))
          \<and> window s' = 0
          \<and> trace s' = [PreCreate, CreateRenderingTarget, PostCreate,
               GlfwMakeContextCurrent 0, GlfwSetWindowUserPointer 0, GlfwSetKeyCallback 0,
               GlfwSetMouseButtonCallback 0, GlfwSetCursorPosCallback 0,
               GlfwSetCursorEnterCallback 0, GlfwSetCharCallback 0, GlfwSetScrollCallback 0,
               GlfwSwapInterval 1, GlewInit, GlGetError, GlEnableDebugOutputSynchronous])"
proof -
  have h: "createRenderingTarget null_window_env = Inr 0" by (simp add: null_window_env_def)
  have g: "glewInit null_window_env = 0" "debugExt null_window_env = NoDebug"
    by (simp_all add: null_window_env_def)
  show ?thesis
    using h run_postCreate_before_window_check [OF h, of "[quiet_frame]" "new_app (800, 600)"]
    by (auto simp: g debug_calls_def new_app_def)
qed

subsection \<open>C1: a window that cannot be created\<close>

text \<open>
  Claim C1, as the code has it. When \<^verbatim>\<open>createRenderingTarget\<close> returns a null handle,
  \<^verbatim>\<open>run\<close> emits the failure message and returns 0 without entering the loop (no poll,
  \<^verbatim>\<open>update\<close>, \<^verbatim>\<open>draw\<close> or \<^verbatim>\<open>finishFrame\<close>, and the frame counter is unchanged),
  without having called \<^verbatim>\<open>initGl\<close>, and without calling \<^verbatim>\<open>shutdownGl\<close>: the failure is
  raised before the guard that calls \<^verbatim>\<open>shutdownGl\<close> exists. The calls of \<^verbatim>\<open>run\<close> are
  then those of the setup up to the failure, followed by the one message.
\<close>

theorem run_null_window_no_shutdown_no_loop:
  assumes "createRenderingTarget E = Inr 0"
  shows "\<exists>s' msg. run E fis s = Some (Returned 0 s')
          \<and> count_list (trace s') ShutdownGl = count_list (trace s) ShutdownGl
          \<and> count_list (trace s') RunShutdownHooks = count_list (trace s) RunShutdownHooks
          \<and> count_list (trace s') InitGl = count_list (trace s) InitGl
          \<and> count_list (trace s') GlfwPollEvents = count_list (trace s) GlfwPollEvents
          \<and> count_list (trace s') Update = count_list (trace s) Update
          \<and> count_list (trace s') Draw = count_list (trace s) Draw
          \<and> count_list (trace s') FinishFrame = count_list (trace s) FinishFrame
          \<and> frame s' = frame s
          \<and> msg = (if glewInit E = 0 then ''Unable to create OpenGL window''
                   else ''Failed to initialize GLEW'')
          \<and> trace s' = trace s @ [PreCreate, CreateRenderingTarget] @ postCreate_calls 0
               @ (if glewInit E = 0
                  then [GlGetError, GlEnableDebugOutputSynchronous] @ debug_calls (debugExt E)
                  else [])
               @ [SAY msg]
          \<and> count_list (trace s') (SAY msg) = count_list (trace s) (SAY msg) + 1"
proof -
  let ?msg = "if glewInit E = 0 then ''Unable to create OpenGL window''
              else ''Failed to initialize GLEW''"
  from try_block_null_window [OF assms, of fis s] obtain s1 where
    t: "try_block E fis s = Some (Raised (RuntimeError ?msg) s1)"
    and s1: "trace s1 = trace s @ startup_calls E" "frame s1 = frame s"
    by (cases "glewInit E = 0") auto
  have r: "run E fis s = Some (Returned 0 (SAY_msg ?msg s1))" using t by (simp add: run_def)
  have "trace (SAY_msg ?msg s1) = trace s @ startup_calls E @ [SAY ?msg]"
       "frame (SAY_msg ?msg s1) = frame s"
    using s1 by (simp_all add: SAY_msg_def record_call_def)
  with r assms show ?thesis
    by (intro exI [of _ "SAY_msg ?msg s1"] exI [of _ ?msg])
       (cases "debugExt E"; simp add: startup_calls_def postCreate_calls_def debug_calls_def)
qed

theorem run_null_window_no_shutdown_no_loop_witness:
  "createRenderingTarget null_window_env = Inr 0
   \<and> (\<exists>s'. run null_window_env [quiet_frame, closing_frame] (new_app (800, 600)) = Some (Returned 0 s')
          \<and> count_list (trace s') ShutdownGl = 0
          \<and> count_list (trace s') RunShutdownHooks = 0
          \<and> count_list (trace s') InitGl = 0
          \<and> count_list (trace s') GlfwPollEvents = 0
          \<and> count_list (trace s') Update = 0
          \<and> count_list (trace s') Draw = 0
          \<and> count_list (trace s') FinishFrame = 0
          \<and> frame s' = 0
          \<and> trace s' = [PreCreate, CreateRenderingTarget, PostCreate,
               GlfwMakeContextCurrent 0, GlfwSetWindowUserPointer 0, GlfwSetKeyCallback 0,
               GlfwSetMouseButtonCallback 0, GlfwSetCursorPosCallback 0,
               GlfwSetCursorEnterCallback 0, GlfwSetCharCallback 0, GlfwSetScrollCallback 0,
               GlfwSwapInterval 1, GlewInit, GlGetError, GlEnableDebugOutputSynchronous,
               SAY ''Unable to create OpenGL window'']
          \<and> count_list (trace s') (SAY ''Unable to create OpenGL window'') = 1)"
proof -
  have h: "createRenderingTarget null_window_env = Inr 0" by (simp add: null_window_env_def)
  have g: "glewInit null_window_env = 0" "debugExt null_window_env = NoDebug"
    by (simp_all add: null_window_env_def)
  show ?thesis
    using h run_null_window_no_shutdown_no_loop [OF h, of "[quiet_frame, closing_frame]"
        "new_app (800, 600)"]
    by (auto simp: g new_app_def postCreate_calls_def debug_calls_def)
qed

text \<open>
  The claim as the spec states it, that \<^verbatim>\<open>shutdownGl\<close> is invoked exactly once when the
  creation fails, does not hold: with a null handle the number of calls of \<^verbatim>\<open>shutdownGl\<close>
  is 0; it is 1 when the window is created and the loop ends.
\<close>

theorem run_null_window_shutdown_counterexample:
  "calls_of ShutdownGl (run null_window_env [quiet_frame, closing_frame] (new_app (800, 600))) = Some 0
   \<and> calls_of ShutdownGl (run working_env [quiet_frame, closing_frame] (new_app (800, 600))) = Some 1"
  by (simp add: calls_of_def run_def try_block_def null_window_env_def working_env_def new_app_def
        preCreate_def postCreate_def initGl_def Let_def record_call_def FAIL_def SAY_msg_def
        register_debug_def aspect_def glfwWindowShouldClose_def loop_body_eq quiet_frame_def
        closing_frame_def closing_def report_fps_def Finally_shutdownGl_def shutdownGl_def)

end
